theory Spec2Isabelle
  imports Main "HOL-Library.Word"
begin

section \<open>JavaScript values, heap and collaborators\<close>

text \<open>
  A JavaScript string is a sequence of UTF-16 code units and \<open>.length\<close> counts them.
  Property names and error messages are fixed identifiers of the source and stay HOL strings.
\<close>

type_synonym jsstring = "16 word list"

definition lit :: "string \<Rightarrow> jsstring" where
  "lit s = map (\<lambda>c. of_nat (of_char c)) s"

type_synonym addr = nat

text \<open>
  A thrown value or rejection reason: the \<open>TypeError\<close>s of the source with their message,
  or any other failure of a collaborator, by tag.
\<close>

datatype jserror = TypeError string | Failure nat

text \<open>
  A promise is modelled by how it settles; \<open>Pending\<close> is a promise that never settles.
  A synchronous call returns or throws.
\<close>

datatype 'a settle = Fulfilled 'a | Rejected jserror | Pending

datatype 'a completion = Return 'a | Throw jserror

text \<open>
  Values. Arrays, plain objects and registries live in the heap and are referred to by
  address, so that identity and aliasing are visible. Function values are the closures the
  source creates, as data, next to the functions supplied by the caller (\<open>Ext k\<close>, whose
  behaviour is given by an environment):
  \<^item> \<open>AsyncConst v\<close> is \<^verbatim>\<open>async () => { return v; }\<close>;
  \<^item> \<open>AsAsync f\<close> is the function \<^verbatim>\<open>asAsync(f)\<close> returns.

  A function value carries none of the properties the source reads. The host server, of
  which the source reads the marker and calls one member, is an object of the heap.
\<close>

datatype jsval =
    Undefined
  | Null
  | Bool bool
  | Num int
  | Str jsstring
  | Ref addr
  | Promise "jsval settle"
  | Fn fnval
and fnval =
    Ext nat
  | AsyncConst jsval
  | AsAsync jsval

text \<open>
  A registry of \<open>prom-client\<close>, as far as the source uses it: the \<open>contentType\<close> property
  and how the promise returned by \<open>metrics()\<close> settles.
\<close>

record registry =
  contentType :: jsstring
  metrics :: "jsstring settle"

datatype hobj =
    HObj "(string \<times> jsval) list"
  | HArr "jsval list"
  | HReg registry

text \<open>The request handler is the closure over the variable \<open>getRegistry\<close>.\<close>

datatype handler = RequestHandler fnval

text \<open>
  Calls into the collaborators are recorded in a trace: \<open>new promClient.Registry()\<close>,
  \<open>promClient.collectDefaultMetrics\<close> and the call \<open>server[httpMethod](path, use, requestHandler)\<close>
  with its receiver, member key and arguments. What the host server does inside that call
  is the host's; the model records the call and takes it to return normally.
\<close>

datatype event =
    NewRegistry addr
  | CollectDefaultMetrics addr
  | Register jsval jsval jsval jsval handler

record world =
  heap :: "hobj list"
  trace :: "event list"

definition lookup :: "world \<Rightarrow> addr \<Rightarrow> hobj option" where
  "lookup w a = (if a < length (heap w) then Some (heap w ! a) else None)"

definition alloc :: "hobj \<Rightarrow> world \<Rightarrow> addr \<times> world" where
  "alloc obj w = (length (heap w), w\<lparr>heap := heap w @ [obj]\<rparr>)"

definition store :: "addr \<Rightarrow> hobj \<Rightarrow> world \<Rightarrow> world" where
  "store a obj w = w\<lparr>heap := (heap w)[a := obj]\<rparr>"

definition emit :: "event \<Rightarrow> world \<Rightarrow> world" where
  "emit e w = w\<lparr>trace := trace w @ [e]\<rparr>"

text \<open>
  The library \<open>prom-client\<close> is a parameter: the state of a registry just constructed and
  what collecting the default metrics does to a registry.
\<close>

record promClient =
  new_Registry :: registry
  default_metrics :: "registry \<Rightarrow> registry"

definition Registry_new :: "promClient \<Rightarrow> world \<Rightarrow> addr \<times> world" where
  "Registry_new pc w = (let (a, w') = alloc (HReg (new_Registry pc)) w in (a, emit (NewRegistry a) w'))"

definition collectDefaultMetrics :: "promClient \<Rightarrow> addr \<Rightarrow> world \<Rightarrow> world" where
  "collectDefaultMetrics pc a w =
     emit (CollectDefaultMetrics a)
       (case lookup w a of
          Some (HReg r) \<Rightarrow> store a (HReg (default_metrics pc r)) w
        | _ \<Rightarrow> w)"

section \<open>Type tests and property reads\<close>

fun typeof :: "jsval \<Rightarrow> string" where
  "typeof Undefined = ''undefined''"
| "typeof Null = ''object''"
| "typeof (Bool b) = ''boolean''"
| "typeof (Num n) = ''number''"
| "typeof (Str s) = ''string''"
| "typeof (Ref a) = ''object''"
| "typeof (Promise p) = ''object''"
| "typeof (Fn f) = ''function''"

text \<open>
  Modelled from the spec: \<open>isNil\<close> of \<open>utils/internal\<close>, which is not among the sources;
  a value is nil when it is absent (\<open>undefined\<close>) or \<open>null\<close>.
\<close>

fun isNil :: "jsval \<Rightarrow> bool" where
  "isNil Undefined = True"
| "isNil Null = True"
| "isNil v = False"

definition instanceof_Registry :: "world \<Rightarrow> jsval \<Rightarrow> bool" where
  "instanceof_Registry w v =
     (case v of
        Ref a \<Rightarrow> (case lookup w a of Some (HReg r) \<Rightarrow> True | _ \<Rightarrow> False)
      | _ \<Rightarrow> False)"

definition Array_isArray :: "world \<Rightarrow> jsval \<Rightarrow> bool" where
  "Array_isArray w v =
     (case v of
        Ref a \<Rightarrow> (case lookup w a of Some (HArr xs) \<Rightarrow> True | _ \<Rightarrow> False)
      | _ \<Rightarrow> False)"

definition elements :: "world \<Rightarrow> jsval \<Rightarrow> jsval list" where
  "elements w v =
     (case v of
        Ref a \<Rightarrow> (case lookup w a of Some (HArr xs) \<Rightarrow> xs | _ \<Rightarrow> [])
      | _ \<Rightarrow> [])"

definition field :: "(string \<times> jsval) list \<Rightarrow> string \<Rightarrow> jsval" where
  "field ps name = (case map_of ps name of Some v \<Rightarrow> v | None \<Rightarrow> Undefined)"

text \<open>
  The enumerable own properties of a value, as the spread \<^verbatim>\<open>{ ...arg3 }\<close> copies them.
  Plain objects carry data properties only; the other values reaching the spread have none.
\<close>

definition own_props :: "world \<Rightarrow> jsval \<Rightarrow> (string \<times> jsval) list" where
  "own_props w v =
     (case v of
        Ref a \<Rightarrow> (case lookup w a of Some (HObj ps) \<Rightarrow> ps | _ \<Rightarrow> [])
      | _ \<Rightarrow> [])"

text \<open>
  The reads \<^verbatim>\<open>v?.name\<close> of the source, for the names it reads (\<open>isEgoHttpServer\<close>,
  \<open>getRegistry\<close>, \<open>use\<close>, \<open>httpMethod\<close>): a plain object answers with its
  property, every other value (nil values through the optional chaining) with \<open>undefined\<close>.
\<close>

definition get_prop :: "world \<Rightarrow> jsval \<Rightarrow> string \<Rightarrow> jsval" where
  "get_prop w v name = field (own_props w v) name"

section \<open>Calling providers\<close>

type_synonym extern = "nat \<Rightarrow> world \<Rightarrow> jsval completion \<times> world"

text \<open>What \<open>await v\<close> and the resolution of a promise with \<open>v\<close> yield.\<close>

fun resolve :: "jsval \<Rightarrow> jsval settle" where
  "resolve (Promise p) = p"
| "resolve v = Fulfilled v"

text \<open>
  Modelled from the spec: \<open>asAsync\<close> of \<open>utils/internal\<close>, which is not among the sources.
  It turns a provider that returns a registry directly or a promise of one into a function
  that always returns a promise, settled as the provider's own result and with the
  provider's own effects; a provider that throws gives a rejected promise.
\<close>

definition asAsync :: "jsval \<Rightarrow> fnval" where
  "asAsync func = AsAsync func"

fun lift_completion :: "jsval completion \<Rightarrow> jsval completion" where
  "lift_completion (Return v) = Return (Promise (resolve v))"
| "lift_completion (Throw e) = Return (Promise (Rejected e))"

fun call_fn :: "extern \<Rightarrow> fnval \<Rightarrow> world \<Rightarrow> jsval completion \<times> world" where
  "call_fn ext (Ext k) w = ext k w"
| "call_fn ext (AsyncConst v) w = (Return (Promise (resolve v)), w)"
| "call_fn ext (AsAsync (Fn f)) w =
     (let (c, w') = call_fn ext f w in (lift_completion c, w'))"
| "call_fn ext (AsAsync v) w =
     (Return (Promise (Rejected (TypeError ''func is not a function''))), w)"

section \<open>The request handler\<close>

datatype response_call =
    WriteHead nat "(jsstring \<times> jsstring) list"
  | Write jsstring

type_synonym response = "response_call list"

text \<open>\<open>String(n)\<close> for a length \<open>n\<close>: its decimal digits.\<close>

fun String_number :: "nat \<Rightarrow> jsstring" where
  "String_number n =
     (if n < 10 then [of_nat (48 + n)]
      else String_number (n div 10) @ [of_nat (48 + n mod 10)])"

declare String_number.simps [simp del]

text \<open>The number a string of decimal digits denotes, to say what \<open>String_number\<close> renders.\<close>

fun Number_digits :: "jsstring \<Rightarrow> nat" where
  "Number_digits ds = foldl (\<lambda>acc d. 10 * acc + (unat d - 48)) 0 ds"

definition registry_at :: "world \<Rightarrow> jsval \<Rightarrow> registry option" where
  "registry_at w v =
     (case v of
        Ref a \<Rightarrow> (case lookup w a of Some (HReg r) \<Rightarrow> Some r | _ \<Rightarrow> None)
      | _ \<Rightarrow> None)"

text \<open>
  The body of \<open>requestHandler\<close>. The result is how the promise of the asynchronous function
  settles, the world after the call of the provider and the calls made on \<open>response\<close>.
  These are the effects of the whole run; when they happen is not modelled. A provider or
  a snapshot that rejects, or never settles, ends the run before anything is written.
\<close>

fun call_handler ::
  "extern \<Rightarrow> handler \<Rightarrow> world \<Rightarrow> response \<Rightarrow> jsval settle \<times> world \<times> response" where
  "call_handler ext (RequestHandler getReg) w response =
     (case call_fn ext getReg w of
        (Throw e, w1) \<Rightarrow> (Rejected e, w1, response)
      | (Return p, w1) \<Rightarrow>
          (case resolve p of
             Rejected e \<Rightarrow> (Rejected e, w1, response)
           | Pending \<Rightarrow> (Pending, w1, response)
           | Fulfilled reg \<Rightarrow>
               (case registry_at w1 reg of
                  None \<Rightarrow> (Rejected (TypeError ''registry.metrics is not a function''), w1, response)
                | Some r \<Rightarrow>
                    (case metrics r of
                       Rejected e \<Rightarrow> (Rejected e, w1, response)
                     | Pending \<Rightarrow> (Pending, w1, response)
                     | Fulfilled responseData \<Rightarrow>
                         (Fulfilled Undefined, w1,
                          response @
                          [WriteHead 200
                             [(lit ''Content-Type'', contentType r),
                              (lit ''Content-Length'', String_number (length responseData))],
                           Write responseData])))))"

section \<open>The set-up function\<close>

record result =
  getRegistry :: fnval
  requestHandler :: handler

text \<open>\<^verbatim>\<open>use.push(...xs)\<close> on the array at address \<open>a\<close>.\<close>

definition push :: "addr \<Rightarrow> jsval list \<Rightarrow> world \<Rightarrow> world" where
  "push a xs w =
     (case lookup w a of
        Some (HArr ys) \<Rightarrow> store a (HArr (ys @ xs)) w
      | _ \<Rightarrow> w)"

text \<open>
  The end of both variants: wrap the provider, build the handler, call the server's member
  and return the result object.
\<close>

definition register_and_return ::
  "jsval \<Rightarrow> jsval \<Rightarrow> jsval \<Rightarrow> addr \<Rightarrow> jsval \<Rightarrow> world \<Rightarrow> result \<times> world" where
  "register_and_return server httpMethod path use_arr provider w =
     (let getReg = asAsync provider;
          handler = RequestHandler getReg;
          w' = emit (Register server httpMethod path (Ref use_arr) handler) w
      in (\<lparr>getRegistry = getReg, requestHandler = handler\<rparr>, w'))"

definition server_error :: jserror where
  "server_error = TypeError ''server must be a valid e.GO HTTP server instance''"

subsection \<open>The variant with the function shorthand (src/unnamed/part_000)\<close>

text \<open>Lines 190 to 224: the local object \<open>options\<close>, built fresh from \<open>arg3\<close>.\<close>

definition options_of :: "world \<Rightarrow> jsval \<Rightarrow> (string \<times> jsval) list" where
  "options_of w arg3 =
     (if isNil arg3 then []
      else if instanceof_Registry w arg3 then [(''getRegistry'', Fn (AsyncConst arg3))]
      else if Array_isArray w arg3 then [(''use'', arg3)]
      else if typeof arg3 = ''object'' then own_props w arg3
      else if typeof arg3 = ''string'' then [(''httpMethod'', arg3)]
      else [(''getRegistry'', arg3)])"

text \<open>Lines 226 to 239: the provider, a default registry when none is given.\<close>

definition resolve_getRegistry ::
  "promClient \<Rightarrow> (string \<times> jsval) list \<Rightarrow> world \<Rightarrow> (jserror + (string \<times> jsval) list) \<times> world" where
  "resolve_getRegistry pc options w =
     (if isNil (field options ''getRegistry'') then
        (let (registry, w1) = Registry_new pc w;
             w2 = collectDefaultMetrics pc registry w1
         in (Inr ((''getRegistry'', Fn (AsyncConst (Ref registry))) # options), w2))
      else if typeof (field options ''getRegistry'') \<noteq> ''function'' then
        (Inl (TypeError ''getRegistry must be of type function''), w)
      else (Inr options, w))"

text \<open>Lines 241 to 249: the additional middlewares.\<close>

definition resolve_use ::
  "(string \<times> jsval) list \<Rightarrow> addr \<Rightarrow> world \<Rightarrow> (jserror + unit) \<times> world" where
  "resolve_use options use_arr w =
     (if \<not> isNil (field options ''use'') then
        (if Array_isArray w (field options ''use'') then
           (Inr (), push use_arr (elements w (field options ''use'')) w)
         else (Inl (TypeError ''use must be of type array''), w))
      else (Inr (), w))"

text \<open>Lines 251 to 259: the HTTP method; the message is the one of the source.\<close>

definition resolve_httpMethod :: "(string \<times> jsval) list \<Rightarrow> jserror + jsval" where
  "resolve_httpMethod options =
     (if \<not> isNil (field options ''httpMethod'') then
        (if typeof (field options ''httpMethod'') = ''string'' then
           Inr (field options ''httpMethod'')
         else Inl (TypeError ''use must be of type array''))
      else Inr (Str (lit ''get'')))"

definition setupPromClient_part000 ::
  "promClient \<Rightarrow> jsval \<Rightarrow> jsval \<Rightarrow> jsval \<Rightarrow> world \<Rightarrow> (jserror + result) \<times> world" where
  "setupPromClient_part000 pc server path arg3 w =
     (if get_prop w server ''isEgoHttpServer'' \<noteq> Bool True then (Inl server_error, w)
      else
        (let (use_arr, w1) = alloc (HArr []) w;
             options = options_of w1 arg3
         in case resolve_getRegistry pc options w1 of
              (Inl e, w2) \<Rightarrow> (Inl e, w2)
            | (Inr options', w2) \<Rightarrow>
                (case resolve_use options' use_arr w2 of
                   (Inl e, w3) \<Rightarrow> (Inl e, w3)
                 | (Inr u, w3) \<Rightarrow>
                     (case resolve_httpMethod options' of
                        Inl e \<Rightarrow> (Inl e, w3)
                      | Inr httpMethod \<Rightarrow>
                          (let (res, w4) =
                                 register_and_return server httpMethod path use_arr
                                   (field options' ''getRegistry'') w3
                           in (Inr res, w4))))))"

subsection \<open>The variant without the function shorthand (src/src/index.ts)\<close>

text \<open>
  Lines 130 to 163, the last branch: \<open>arg3\<close> read as an options object. The result is the
  values of the variables \<open>getRegistry\<close> and \<open>httpMethod\<close> after the branch.
\<close>

definition options_branch ::
  "promClient \<Rightarrow> jsval \<Rightarrow> addr \<Rightarrow> world \<Rightarrow> (jserror + jsval \<times> jsval) \<times> world" where
  "options_branch pc arg3 use_arr w =
     (let (provider, w2) =
            (if isNil (get_prop w arg3 ''getRegistry'') then
               (let (registry, wa) = Registry_new pc w;
                    wb = collectDefaultMetrics pc registry wa
                in (Fn (AsyncConst (Ref registry)), wb))
             else (get_prop w arg3 ''getRegistry'', w))
      in if \<not> isNil (get_prop w2 arg3 ''use'') \<and> \<not> Array_isArray w2 (get_prop w2 arg3 ''use'')
         then (Inl (TypeError ''arg3.use must be of type array''), w2)
         else
           (let w3 = (if \<not> isNil (get_prop w2 arg3 ''use'')
                      then push use_arr (elements w2 (get_prop w2 arg3 ''use'')) w2
                      else w2)
            in if \<not> isNil (get_prop w3 arg3 ''httpMethod'') then
                 (if typeof (get_prop w3 arg3 ''httpMethod'') \<noteq> ''string'' then
                    (Inl (TypeError ''arg3.httpMethod must be of type string''), w3)
                  else (Inr (provider, get_prop w3 arg3 ''httpMethod''), w3))
               else (Inr (provider, Str (lit ''get'')), w3)))"

text \<open>
  Lines 115 to 163: the variable \<open>getRegistry\<close> is declared without a value, so it is
  \<open>undefined\<close> on the branches that do not assign it.
\<close>

definition dispatch_index ::
  "promClient \<Rightarrow> jsval \<Rightarrow> addr \<Rightarrow> world \<Rightarrow> (jserror + jsval \<times> jsval) \<times> world" where
  "dispatch_index pc arg3 use_arr w =
     (if instanceof_Registry w arg3 then (Inr (Fn (AsyncConst arg3), Str (lit ''get'')), w)
      else if Array_isArray w arg3 then
        (Inr (Undefined, Str (lit ''get'')), push use_arr (elements w arg3) w)
      else if typeof arg3 = ''string'' then (Inr (Undefined, arg3), w)
      else options_branch pc arg3 use_arr w)"

definition setupPromClient_index ::
  "promClient \<Rightarrow> jsval \<Rightarrow> jsval \<Rightarrow> jsval \<Rightarrow> world \<Rightarrow> (jserror + result) \<times> world" where
  "setupPromClient_index pc server path arg3 w =
     (if get_prop w server ''isEgoHttpServer'' \<noteq> Bool True then (Inl server_error, w)
      else
        (let (use_arr, w1) = alloc (HArr []) w
         in case dispatch_index pc arg3 use_arr w1 of
              (Inl e, w2) \<Rightarrow> (Inl e, w2)
            | (Inr (provider, httpMethod), w2) \<Rightarrow>
                (if typeof provider \<noteq> ''function'' then
                   (Inl (TypeError ''optionsOrRegistry is an invalid value''), w2)
                 else
                   (let (res, w3) = register_and_return server httpMethod path use_arr provider w2
                    in (Inr res, w3)))))"

section \<open>Notions for the statements\<close>

text \<open>Both variants of the source, for statements about each of them.\<close>

definition variants ::
  "(promClient \<Rightarrow> jsval \<Rightarrow> jsval \<Rightarrow> jsval \<Rightarrow> world \<Rightarrow> (jserror + result) \<times> world) list" where
  "variants = [setupPromClient_part000, setupPromClient_index]"

text \<open>The two statements that make the default registry, as one step on the world.\<close>

definition default_registry :: "promClient \<Rightarrow> world \<Rightarrow> world" where
  "default_registry pc w = collectDefaultMetrics pc (length (heap w)) (snd (Registry_new pc w))"

text \<open>A reference to a plain object of the heap, as an options object is.\<close>

definition plain_object :: "world \<Rightarrow> jsval \<Rightarrow> bool" where
  "plain_object w v =
     (case v of
        Ref a \<Rightarrow> (case lookup w a of Some (HObj ps) \<Rightarrow> True | _ \<Rightarrow> False)
      | _ \<Rightarrow> False)"

text \<open>A value that does not refer beyond the heap: no reference of a program dangles.\<close>

definition allocated :: "world \<Rightarrow> jsval \<Rightarrow> bool" where
  "allocated w v = (case v of Ref a \<Rightarrow> a < length (heap w) | _ \<Rightarrow> True)"

text \<open>
  The fields \<open>use\<close> and \<open>httpMethod\<close> of an options object are absent or of the type
  the source asks for; the method an options object selects; the call of the server's member
  that a run ends with when it returns a result.
\<close>

definition well_typed_rest :: "world \<Rightarrow> jsval \<Rightarrow> bool" where
  "well_typed_rest w arg3 =
     ((isNil (get_prop w arg3 ''use'') \<or> Array_isArray w (get_prop w arg3 ''use'')) \<and>
      (isNil (get_prop w arg3 ''httpMethod'') \<or> typeof (get_prop w arg3 ''httpMethod'') = ''string''))"



text \<open>The arrays passed to the server in the registrations of a trace.\<close>

fun registered_arrays :: "event list \<Rightarrow> jsval list" where
  "registered_arrays [] = []"
| "registered_arrays (Register s m p u h # es) = u # registered_arrays es"
| "registered_arrays (e # es) = registered_arrays es"


definition ill_typed :: "world \<Rightarrow> (string \<times> jsval) list \<Rightarrow> bool" where
  "ill_typed w options =
     ((\<not> isNil (field options ''use'') \<and> \<not> Array_isArray w (field options ''use'')) \<or>
      (\<not> isNil (field options ''httpMethod'') \<and> typeof (field options ''httpMethod'') \<noteq> ''string'') \<or>
      (\<not> isNil (field options ''getRegistry'') \<and>
       typeof (field options ''getRegistry'') \<noteq> ''function''))"

section \<open>Example inputs\<close>

definition example_promClient :: promClient where
  "example_promClient =
     \<lparr>new_Registry = \<lparr>contentType = lit ''text/plain'', metrics = Fulfilled []\<rparr>,
      default_metrics = (\<lambda>r. r\<lparr>metrics := Fulfilled (lit ''up 1'')\<rparr>)\<rparr>"

text \<open>
  A heap with a server (0), an array of two middlewares (1), an options object whose \<open>use\<close>
  is a number (2), an empty registry (3), an object without the marker (4) and an options
  object with a provider, the array and a method (5).
\<close>

definition example_world :: world where
  "example_world =
     \<lparr>heap =
        [HObj [(''isEgoHttpServer'', Bool True)],
         HArr [Fn (Ext 1), Fn (Ext 2)],
         HObj [(''use'', Num 5)],
         HReg \<lparr>contentType = lit ''text/plain'', metrics = Fulfilled []\<rparr>,
         HObj [(''name'', Str (lit ''server''))],
         HObj [(''getRegistry'', Fn (Ext 0)), (''use'', Ref 1), (''httpMethod'', Str (lit ''post''))]],
      trace = []\<rparr>"

text \<open>
  Caller's functions: 0 returns the registry at 3 directly, 7 returns a promise of it,
  every other one throws.
\<close>

definition example_extern :: extern where
  "example_extern k w =
     (if k = 0 then (Return (Ref 3), w)
      else if k = 7 then (Return (Promise (Fulfilled (Ref 3))), w)
      else (Throw (Failure k), w))"

section \<open>Effects of the steps on the world\<close>

lemma heap_emit [simp]: "heap (emit e w) = heap w"
  and trace_emit [simp]: "trace (emit e w) = trace w @ [e]"
  by (simp_all add: emit_def)

lemma lookup_emit [simp]: "lookup (emit e w) a = lookup w a"
  by (simp add: lookup_def)

lemma lookup_fresh [simp]: "lookup w (length (heap w)) = None"
  by (simp add: lookup_def)

lemma heap_store [simp]: "heap (store a obj w) = (heap w)[a := obj]"
  and trace_store [simp]: "trace (store a obj w) = trace w"
  by (simp_all add: store_def)

lemma alloc_simps [simp]:
  "fst (alloc obj w) = length (heap w)"
  "heap (snd (alloc obj w)) = heap w @ [obj]"
  "trace (snd (alloc obj w)) = trace w"
  by (simp_all add: alloc_def)

lemma lookup_alloc [simp]:
  "lookup (snd (alloc obj w)) a = (if a = length (heap w) then Some obj else lookup w a)"
  by (simp add: lookup_def nth_append)

lemma trace_push [simp]: "trace (push a xs w) = trace w"
  by (simp add: push_def store_def split: option.splits hobj.splits)

lemma length_heap_push [simp]: "length (heap (push a xs w)) = length (heap w)"
  by (simp add: push_def store_def split: option.splits hobj.splits)

lemma take_heap_push [simp]: "n \<le> a \<Longrightarrow> take n (heap (push a xs w)) = take n (heap w)"
  by (simp add: push_def store_def split: option.splits hobj.splits)

lemma lookup_push:
  "lookup (push n xs w) a =
     (if a = n then (case lookup w n of Some (HArr ys) \<Rightarrow> Some (HArr (ys @ xs)) | r \<Rightarrow> r)
      else lookup w a)"
  by (auto simp add: push_def store_def lookup_def split: option.splits hobj.splits)

lemma trace_default_registry [simp]:
  "trace (default_registry pc w) =
     trace w @ [NewRegistry (length (heap w)), CollectDefaultMetrics (length (heap w))]"
  by (simp add: default_registry_def collectDefaultMetrics_def Registry_new_def split_beta
      split: option.splits hobj.splits)

lemma heap_default_registry [simp]:
  "heap (default_registry pc w) = heap w @ [HReg (default_metrics pc (new_Registry pc))]"
  by (simp add: default_registry_def collectDefaultMetrics_def Registry_new_def split_beta
      lookup_def)

lemma lookup_default_registry [simp]:
  "lookup (default_registry pc w) a =
     (if a = length (heap w) then Some (HReg (default_metrics pc (new_Registry pc)))
      else lookup w a)"
  by (simp add: lookup_def nth_append)

section \<open>Type tests and property reads along the steps\<close>

lemma field_Cons [simp]:
  "field ((k, v) # ps) name = (if k = name then v else field ps name)"
  by (simp add: field_def)

lemma field_Nil [simp]: "field [] name = Undefined"
  by (simp add: field_def)

lemma own_props_emit [simp]: "own_props (emit e w) v = own_props w v"
  by (simp add: own_props_def split: jsval.splits)

lemma own_props_alloc_HArr [simp]: "own_props (snd (alloc (HArr xs) w)) v = own_props w v"
  by (simp add: own_props_def split: jsval.splits)

lemma own_props_push [simp]: "own_props (push a xs w) v = own_props w v"
  by (auto simp add: own_props_def lookup_push
      split: jsval.splits hobj.splits option.splits if_splits)

lemma own_props_default_registry [simp]: "own_props (default_registry pc w) v = own_props w v"
  by (simp add: own_props_def split: jsval.splits)

lemma get_prop_simps [simp]:
  "get_prop (emit e w) v name = get_prop w v name"
  "get_prop (snd (alloc (HArr xs) w)) v name = get_prop w v name"
  "get_prop (push a xs w) v name = get_prop w v name"
  "get_prop (default_registry pc w) v name = get_prop w v name"
  by (simp_all add: get_prop_def)

lemma instanceof_Registry_simps [simp]:
  "instanceof_Registry (emit e w) v = instanceof_Registry w v"
  "instanceof_Registry (snd (alloc (HArr xs) w)) v = instanceof_Registry w v"
  by (simp_all add: instanceof_Registry_def split: jsval.splits)

lemma Array_isArray_simps [simp]:
  "Array_isArray (emit e w) v = Array_isArray w v"
  "Array_isArray (push a xs w) v = Array_isArray w v"
  "Array_isArray (default_registry pc w) v = Array_isArray w v"
  by (auto simp add: Array_isArray_def lookup_push
      split: jsval.splits hobj.splits option.splits if_splits)

lemma elements_simps [simp]:
  "elements (emit e w) v = elements w v"
  "elements (default_registry pc w) v = elements w v"
  by (simp_all add: elements_def split: jsval.splits)

section \<open>Both variants as one case distinction\<close>

text \<open>
  Each variant unfolded into the tests it makes, in the order of the source, with the result
  and the world of every way out. The world \<open>w1\<close> is the one after the allocation of the
  array \<open>use\<close>; reads of properties give the same in every world of a run.
\<close>

lemma fst_Registry_new [simp]: "fst (Registry_new pc w) = length (heap w)"
  by (simp add: Registry_new_def split_beta)

lemma resolve_getRegistry_flat:
  "resolve_getRegistry pc options w =
     (if isNil (field options ''getRegistry'') then
        (Inr ((''getRegistry'', Fn (AsyncConst (Ref (length (heap w))))) # options),
         default_registry pc w)
      else if typeof (field options ''getRegistry'') \<noteq> ''function'' then
        (Inl (TypeError ''getRegistry must be of type function''), w)
      else (Inr options, w))"
  by (simp add: resolve_getRegistry_def default_registry_def split_beta)

lemma part000_flat:
  "setupPromClient_part000 pc server path arg3 w =
     (if get_prop w server ''isEgoHttpServer'' \<noteq> Bool True then (Inl server_error, w)
      else
        (let n = length (heap w);
             w1 = snd (alloc (HArr []) w);
             opts = options_of w1 arg3;
             g = field opts ''getRegistry'';
             u = field opts ''use'';
             m = field opts ''httpMethod'';
             w2 = (if isNil g then default_registry pc w1 else w1);
             g' = (if isNil g then Fn (AsyncConst (Ref (Suc n))) else g);
             w3 = (if isNil u then w2 else push n (elements w1 u) w2)
         in if \<not> isNil g \<and> typeof g \<noteq> ''function'' then
              (Inl (TypeError ''getRegistry must be of type function''), w1)
            else if \<not> isNil u \<and> \<not> Array_isArray w1 u then
              (Inl (TypeError ''use must be of type array''), w2)
            else if \<not> isNil m \<and> typeof m \<noteq> ''string'' then
              (Inl (TypeError ''use must be of type array''), w3)
            else
              (Inr \<lparr>getRegistry = asAsync g', requestHandler = RequestHandler (asAsync g')\<rparr>,
               emit (Register server (if isNil m then Str (lit ''get'') else m) path (Ref n)
                       (RequestHandler (asAsync g'))) w3)))"
  by (simp add: setupPromClient_part000_def resolve_getRegistry_flat resolve_use_def
      resolve_httpMethod_def register_and_return_def split_beta Let_def)

lemma options_branch_flat:
  "options_branch pc arg3 n w =
     (let g = get_prop w arg3 ''getRegistry'';
          u = get_prop w arg3 ''use'';
          m = get_prop w arg3 ''httpMethod'';
          w2 = (if isNil g then default_registry pc w else w);
          g' = (if isNil g then Fn (AsyncConst (Ref (length (heap w)))) else g);
          w3 = (if isNil u then w2 else push n (elements w u) w2)
      in if \<not> isNil u \<and> \<not> Array_isArray w u then
           (Inl (TypeError ''arg3.use must be of type array''), w2)
         else if \<not> isNil m \<and> typeof m \<noteq> ''string'' then
           (Inl (TypeError ''arg3.httpMethod must be of type string''), w3)
         else (Inr (g', if isNil m then Str (lit ''get'') else m), w3))"
proof (cases "isNil (get_prop w arg3 ''getRegistry'')")
  case True
  then show ?thesis
    by (simp add: options_branch_def default_registry_def [symmetric] split_beta Let_def)
next
  case False
  then show ?thesis
    by (simp add: options_branch_def Let_def)
qed

lemma index_flat:
  "setupPromClient_index pc server path arg3 w =
     (if get_prop w server ''isEgoHttpServer'' \<noteq> Bool True then (Inl server_error, w)
      else
        (let n = length (heap w);
             w1 = snd (alloc (HArr []) w)
         in if instanceof_Registry w arg3 then
              (Inr \<lparr>getRegistry = asAsync (Fn (AsyncConst arg3)),
                     requestHandler = RequestHandler (asAsync (Fn (AsyncConst arg3)))\<rparr>,
               emit (Register server (Str (lit ''get'')) path (Ref n)
                       (RequestHandler (asAsync (Fn (AsyncConst arg3))))) w1)
            else if Array_isArray w1 arg3 then
              (Inl (TypeError ''optionsOrRegistry is an invalid value''),
               push n (elements w1 arg3) w1)
            else if typeof arg3 = ''string'' then
              (Inl (TypeError ''optionsOrRegistry is an invalid value''), w1)
            else
              (let g = get_prop w arg3 ''getRegistry'';
                   u = get_prop w arg3 ''use'';
                   m = get_prop w arg3 ''httpMethod'';
                   w2 = (if isNil g then default_registry pc w1 else w1);
                   g' = (if isNil g then Fn (AsyncConst (Ref (Suc n))) else g);
                   w3 = (if isNil u then w2 else push n (elements w1 u) w2)
               in if \<not> isNil u \<and> \<not> Array_isArray w1 u then
                    (Inl (TypeError ''arg3.use must be of type array''), w2)
                  else if \<not> isNil m \<and> typeof m \<noteq> ''string'' then
                    (Inl (TypeError ''arg3.httpMethod must be of type string''), w3)
                  else if typeof g' \<noteq> ''function'' then
                    (Inl (TypeError ''optionsOrRegistry is an invalid value''), w3)
                  else
                    (Inr \<lparr>getRegistry = asAsync g', requestHandler = RequestHandler (asAsync g')\<rparr>,
                     emit (Register server (if isNil m then Str (lit ''get'') else m) path (Ref n)
                             (RequestHandler (asAsync g'))) w3))))"
proof (cases "get_prop w server ''isEgoHttpServer'' = Bool True")
  case False
  then show ?thesis by (simp add: setupPromClient_index_def)
next
  case srv: True
  let ?w1 = "snd (alloc (HArr []) w)"
  show ?thesis
  proof (cases "instanceof_Registry w arg3 \<or> Array_isArray ?w1 arg3 \<or> typeof arg3 = ''string''")
    case True
    then show ?thesis using srv
      by (auto simp add: setupPromClient_index_def dispatch_index_def register_and_return_def
          split_beta Let_def)
  next
    case False
    then have d: "dispatch_index pc arg3 (length (heap w)) ?w1 =
                    options_branch pc arg3 (length (heap w)) ?w1"
      by (simp add: dispatch_index_def)
    show ?thesis
    proof (cases "isNil (get_prop w arg3 ''getRegistry'')")
      case True
      then show ?thesis using srv False d
        by (simp add: setupPromClient_index_def options_branch_flat register_and_return_def
          split_beta Let_def)
    next
      case g: False
      then show ?thesis using srv False d
        by (simp add: setupPromClient_index_def options_branch_flat register_and_return_def
          split_beta Let_def)
    qed
  qed
qed

section \<open>Shapes of the third argument\<close>

text \<open>What the tests of the source answer for a registry, a plain object and a nil value.\<close>

lemma instanceof_Registry_not_nil: "instanceof_Registry w v \<Longrightarrow> \<not> isNil v"
  by (auto simp add: instanceof_Registry_def split: jsval.splits)

lemma instanceof_Registry_Ref: "instanceof_Registry w v \<Longrightarrow> resolve v = Fulfilled v"
  by (auto simp add: instanceof_Registry_def split: jsval.splits)

lemma options_of_Registry:
  "instanceof_Registry w arg3 \<Longrightarrow>
     options_of (snd (alloc (HArr xs) w)) arg3 = [(''getRegistry'', Fn (AsyncConst arg3))]"
  by (simp add: options_of_def instanceof_Registry_not_nil)

lemma plain_object_tests:
  assumes "plain_object w v"
  shows "\<not> isNil v" and "\<not> instanceof_Registry w v"
    and "\<not> Array_isArray (snd (alloc (HArr xs) w)) v" and "typeof v = ''object''"
  using assms
  by (auto simp add: plain_object_def instanceof_Registry_def Array_isArray_def
      split: jsval.splits option.splits hobj.splits if_splits)

lemma options_of_plain_object:
  "plain_object w arg3 \<Longrightarrow> options_of (snd (alloc (HArr xs) w)) arg3 = own_props w arg3"
  by (simp add: options_of_def plain_object_tests)



lemma call_asAsync_AsyncConst:
  "call_fn ext (asAsync (Fn (AsyncConst v))) w = (Return (Promise (resolve v)), w)"
  by (cases v) (simp_all add: asAsync_def)


lemma Array_isArray_alloc: "Array_isArray w v \<Longrightarrow> Array_isArray (snd (alloc obj w)) v"
  by (auto simp add: Array_isArray_def split: jsval.splits option.splits hobj.splits if_splits)

lemma field_own_props: "field (own_props w v) name = get_prop w v name"
  by (simp add: get_prop_def)




section \<open>Runs that end in a type error\<close>

text \<open>The trace of a run that raises, for each variant and each error.\<close>

lemma variants_cases:
  assumes "setup \<in> set variants"
  obtains "setup = setupPromClient_part000" | "setup = setupPromClient_index"
  using assms by (auto simp add: variants_def)



section \<open>The heap below the objects of a run\<close>

text \<open>
  A run writes only to the array and the registry it allocates; the array ends up with the
  elements of the caller's array.
\<close>

lemma registered_arrays_append [simp]:
  "registered_arrays (xs @ ys) = registered_arrays xs @ registered_arrays ys"
  by (induction xs rule: registered_arrays.induct) simp_all

lemma lookup_store_other: "a \<noteq> b \<Longrightarrow> lookup (store b obj w) a = lookup w a"
  by (simp add: lookup_def)

lemma Array_tests:
  assumes "Array_isArray w v"
  shows "\<not> isNil v" and "\<not> instanceof_Registry w v" and "typeof v \<noteq> ''string''"
    and "elements (snd (alloc obj w)) v = elements w v"
  using assms
  by (auto simp add: Array_isArray_def instanceof_Registry_def elements_def
      split: jsval.splits option.splits hobj.splits if_splits)

lemma options_of_Array:
  "Array_isArray w arg3 \<Longrightarrow> options_of (snd (alloc (HArr xs) w)) arg3 = [(''use'', arg3)]"
  by (simp add: options_of_def Array_tests Array_isArray_alloc)

lemma part000_frame:
  "take (length (heap w)) (heap (snd (setupPromClient_part000 pc server path arg3 w))) = heap w"
  by (simp add: part000_flat Let_def)

lemma index_frame:
  "take (length (heap w)) (heap (snd (setupPromClient_index pc server path arg3 w))) = heap w"
  by (simp add: index_flat Let_def)

lemma part000_registered:
  "registered_arrays (trace (snd (setupPromClient_part000 pc server path arg3 w))) =
     registered_arrays (trace w) @
     (case fst (setupPromClient_part000 pc server path arg3 w) of
        Inl e \<Rightarrow> [] | Inr res \<Rightarrow> [Ref (length (heap w))])"
  by (simp add: part000_flat Let_def)

lemma index_registered:
  "registered_arrays (trace (snd (setupPromClient_index pc server path arg3 w))) =
     registered_arrays (trace w) @
     (case fst (setupPromClient_index pc server path arg3 w) of
        Inl e \<Rightarrow> [] | Inr res \<Rightarrow> [Ref (length (heap w))])"
  by (simp add: index_flat Let_def)

lemma part000_copy_array:
  assumes "get_prop w server ''isEgoHttpServer'' = Bool True" and "Array_isArray w arg3"
  shows "lookup (snd (setupPromClient_part000 pc server path arg3 w)) (length (heap w)) =
           Some (HArr (elements w arg3))"
  using assms
  by (simp add: part000_flat Let_def options_of_Array Array_tests Array_isArray_alloc lookup_push)

lemma index_copy_array:
  assumes "get_prop w server ''isEgoHttpServer'' = Bool True" and "Array_isArray w arg3"
  shows "lookup (snd (setupPromClient_index pc server path arg3 w)) (length (heap w)) =
           Some (HArr (elements w arg3))"
  using assms
  by (simp add: index_flat Let_def Array_tests Array_isArray_alloc lookup_push)

lemma part000_copy_use:
  assumes "plain_object w arg3" and "Array_isArray w (get_prop w arg3 ''use'')"
    and "fst (setupPromClient_part000 pc server path arg3 w) = Inr res"
  shows "lookup (snd (setupPromClient_part000 pc server path arg3 w)) (length (heap w)) =
           Some (HArr (elements w (get_prop w arg3 ''use'')))"
  using assms
  by (simp add: part000_flat Let_def options_of_plain_object field_own_props Array_tests
      Array_isArray_alloc lookup_push split: if_splits)

lemma index_copy_use:
  assumes "plain_object w arg3" and "Array_isArray w (get_prop w arg3 ''use'')"
    and "fst (setupPromClient_index pc server path arg3 w) = Inr res"
  shows "lookup (snd (setupPromClient_index pc server path arg3 w)) (length (heap w)) =
           Some (HArr (elements w (get_prop w arg3 ''use'')))"
  using assms
  by (simp add: index_flat Let_def plain_object_tests Array_tests
      Array_isArray_alloc lookup_push split: if_splits)


section \<open>Providers and their wrapping\<close>

lemma call_asAsync:
  "call_fn ext (asAsync (Fn f)) w =
     (lift_completion (fst (call_fn ext f w)), snd (call_fn ext f w))"
  by (simp add: asAsync_def split_beta)

lemma part000_function:
  assumes "get_prop w server ''isEgoHttpServer'' = Bool True"
  shows "setupPromClient_part000 pc server path (Fn f) w =
           (Inr \<lparr>getRegistry = asAsync (Fn f), requestHandler = RequestHandler (asAsync (Fn f))\<rparr>,
            emit (Register server (Str (lit ''get'')) path (Ref (length (heap w)))
                    (RequestHandler (asAsync (Fn f))))
              (snd (alloc (HArr []) w)))"
  using assms
  by (simp add: part000_flat Let_def options_of_def instanceof_Registry_def Array_isArray_def)

lemma options_provider_part000:
  assumes "get_prop w server ''isEgoHttpServer'' = Bool True"
    and "plain_object w arg3" and "get_prop w arg3 ''getRegistry'' = Fn f"
    and "well_typed_rest w arg3"
  shows "fst (setupPromClient_part000 pc server path arg3 w) =
           Inr \<lparr>getRegistry = asAsync (Fn f), requestHandler = RequestHandler (asAsync (Fn f))\<rparr>"
  using assms
  by (auto simp add: part000_flat Let_def options_of_plain_object field_own_props
      well_typed_rest_def Array_isArray_alloc)

lemma options_provider_index:
  assumes "get_prop w server ''isEgoHttpServer'' = Bool True"
    and "plain_object w arg3" and "get_prop w arg3 ''getRegistry'' = Fn f"
    and "well_typed_rest w arg3"
  shows "fst (setupPromClient_index pc server path arg3 w) =
           Inr \<lparr>getRegistry = asAsync (Fn f), requestHandler = RequestHandler (asAsync (Fn f))\<rparr>"
  using assms
  by (auto simp add: index_flat Let_def plain_object_tests
      well_typed_rest_def Array_isArray_alloc)


section \<open>The two variants on the same argument\<close>









section \<open>A method name or a middleware array as third argument\<close>

text \<open>
  The variant of src/unnamed/part_000 registers under the method name, and under \<open>get\<close>
  with a copy of the array; the variant of src/src/index.ts raises on both. The variant of
  src/unnamed/part_000 raises a type error exactly when a field of the resolved
  configuration is present and ill typed.
\<close>

lemma Str_tests:
  "\<not> instanceof_Registry w (Str s)" "\<not> Array_isArray w (Str s)"
  by (simp_all add: instanceof_Registry_def Array_isArray_def)

lemma part000_string:
  assumes "get_prop w server ''isEgoHttpServer'' = Bool True"
  shows "setupPromClient_part000 pc server path (Str s) w =
           (Inr \<lparr>getRegistry = asAsync (Fn (AsyncConst (Ref (Suc (length (heap w)))))),
                  requestHandler =
                    RequestHandler (asAsync (Fn (AsyncConst (Ref (Suc (length (heap w)))))))\<rparr>,
            emit (Register server (Str s) path (Ref (length (heap w)))
                    (RequestHandler (asAsync (Fn (AsyncConst (Ref (Suc (length (heap w)))))))))
              (default_registry pc (snd (alloc (HArr []) w))))"
  using assms by (simp add: part000_flat Let_def options_of_def Str_tests)

lemma part000_array:
  assumes "get_prop w server ''isEgoHttpServer'' = Bool True" and "Array_isArray w arg3"
  shows "setupPromClient_part000 pc server path arg3 w =
           (Inr \<lparr>getRegistry = asAsync (Fn (AsyncConst (Ref (Suc (length (heap w)))))),
                  requestHandler =
                    RequestHandler (asAsync (Fn (AsyncConst (Ref (Suc (length (heap w)))))))\<rparr>,
            emit (Register server (Str (lit ''get'')) path (Ref (length (heap w)))
                    (RequestHandler (asAsync (Fn (AsyncConst (Ref (Suc (length (heap w)))))))))
              (push (length (heap w)) (elements w arg3)
                 (default_registry pc (snd (alloc (HArr []) w)))))"
  using assms
  by (simp add: part000_flat Let_def options_of_Array Array_tests Array_isArray_alloc)

lemma index_string_or_array:
  assumes "get_prop w server ''isEgoHttpServer'' = Bool True"
    and "typeof arg3 = ''string'' \<or> Array_isArray w arg3"
  shows "fst (setupPromClient_index pc server path arg3 w) =
           Inl (TypeError ''optionsOrRegistry is an invalid value'') \<and>
         trace (snd (setupPromClient_index pc server path arg3 w)) = trace w"
proof -
  have r: "\<not> instanceof_Registry w arg3"
    using assms(2)
  proof
    assume "typeof arg3 = ''string''"
    then show ?thesis by (cases arg3) (simp_all add: instanceof_Registry_def)
  next
    assume "Array_isArray w arg3"
    then show ?thesis by (rule Array_tests(2))
  qed
  from assms(2) show ?thesis
  proof
    assume "typeof arg3 = ''string''"
    then show ?thesis
      using assms(1) r by (simp add: index_flat Let_def)
  next
    assume "Array_isArray w arg3"
    then show ?thesis
      using assms(1) r by (simp add: index_flat Let_def Array_isArray_alloc)
  qed
qed

lemma options_of_allocated:
  "allocated w arg3 \<Longrightarrow> options_of (snd (alloc (HArr xs) w)) arg3 = options_of w arg3"
  by (auto simp add: options_of_def Array_isArray_def allocated_def split: jsval.splits)

lemma Array_isArray_allocated:
  "allocated w v \<Longrightarrow> Array_isArray (snd (alloc (HArr xs) w)) v = Array_isArray w v"
  by (auto simp add: Array_isArray_def allocated_def split: jsval.splits)

lemma part000_type_errors:
  assumes "get_prop w server ''isEgoHttpServer'' = Bool True"
    and "allocated w arg3" and "allocated w (field (options_of w arg3) ''use'')"
  shows "(\<exists>e. fst (setupPromClient_part000 pc server path arg3 w) = Inl e) \<longleftrightarrow>
           ill_typed w (options_of w arg3)"
  using assms
  by (auto simp add: part000_flat Let_def options_of_allocated Array_isArray_allocated ill_typed_def)


section \<open>The length header and the runs of the handler that write nothing\<close>

lemma digit_unat: "k < 10 \<Longrightarrow> unat (48 + word_of_nat k :: 16 word) = 48 + k"
proof -
  assume k: "k < 10"
  have "(48 + word_of_nat k :: 16 word) = of_nat (48 + k)"
    by simp
  then have "unat (48 + word_of_nat k :: 16 word) = (48 + k) mod 2 ^ LENGTH(16)"
    by (simp only: unat_of_nat)
  with k show ?thesis
    by simp
qed

lemma Number_digits_String_number: "Number_digits (String_number n) = n"
proof (induction n rule: String_number.induct)
  case (1 n)
  show ?case
  proof (cases "n < 10")
    case True
    then show ?thesis
      by (simp add: String_number.simps [of n] digit_unat)
  next
    case False
    have m: "n mod 10 < 10" by simp
    from False 1 have "Number_digits (String_number (n div 10)) = n div 10"
      by simp
    with False show ?thesis
      by (simp add: String_number.simps [of n] digit_unat [OF m])
  qed
qed

lemma call_handler_rejected:
  assumes "call_fn ext getReg w = (Return p, w1)" and "resolve p = Rejected e"
  shows "call_handler ext (RequestHandler getReg) w response = (Rejected e, w1, response)"
  using assms by simp

lemma call_handler_snapshot_rejected:
  assumes "call_fn ext getReg w = (Return p, w1)" and "resolve p = Fulfilled reg"
    and "registry_at w1 reg = Some r" and "metrics r = Rejected e"
  shows "call_handler ext (RequestHandler getReg) w response = (Rejected e, w1, response)"
  using assms by simp

section \<open>The example inputs evaluated\<close>

lemma example_server: "get_prop example_world (Ref 0) ''isEgoHttpServer'' = Bool True"
  by (simp add: get_prop_def own_props_def lookup_def example_world_def)

lemma example_length: "length (heap example_world) = 6"
  by (simp add: example_world_def)



lemma example_array:
  "Array_isArray example_world (Ref 1)"
  "elements example_world (Ref 1) = [Fn (Ext 1), Fn (Ext 2)]"
  by (simp_all add: Array_isArray_def elements_def lookup_def example_world_def)

lemma example_options:
  "plain_object example_world (Ref 5)"
  "get_prop example_world (Ref 5) ''getRegistry'' = Fn (Ext 0)"
  "get_prop example_world (Ref 5) ''use'' = Ref 1"
  "get_prop example_world (Ref 5) ''httpMethod'' = Str (lit ''post'')"
  by (simp_all add: plain_object_def get_prop_def own_props_def lookup_def example_world_def field_def)

lemma example_calls:
  "call_fn example_extern (Ext 0) example_world = (Return (Ref 3), example_world)"
  "call_fn example_extern (Ext 7) example_world =
     (Return (Promise (Fulfilled (Ref 3))), example_world)"
  by (simp_all add: example_extern_def)


section \<open>What the request handler writes\<close>



section \<open>The server check\<close>

text \<open>
  C2. When the \<open>isEgoHttpServer\<close> property of the server argument is not \<open>true\<close>, both
  variants of \<open>setupPromClient\<close> raise the type error of the server check and leave the world
  as it was: nothing is allocated, no registry is created, no default metrics are collected
  and no member of the server is called.
\<close>

theorem server_check_first:
  assumes "get_prop w server ''isEgoHttpServer'' \<noteq> Bool True"
  shows "setupPromClient_part000 pc server path arg3 w = (Inl server_error, w) \<and>
         setupPromClient_index pc server path arg3 w = (Inl server_error, w)"
  using assms by (simp add: setupPromClient_part000_def setupPromClient_index_def)

theorem server_check_first_witness:
  "get_prop example_world (Ref 4) ''isEgoHttpServer'' \<noteq> Bool True \<and>
   setupPromClient_part000 example_promClient (Ref 4) (Str (lit ''/metrics'')) Undefined
       example_world = (Inl server_error, example_world) \<and>
   setupPromClient_index example_promClient (Ref 4) (Str (lit ''/metrics'')) Undefined
       example_world = (Inl server_error, example_world)"
proof -
  have h: "get_prop example_world (Ref 4) ''isEgoHttpServer'' \<noteq> Bool True"
    by (simp add: get_prop_def own_props_def lookup_def field_def example_world_def)
  show ?thesis
    using server_check_first [OF h] h by simp
qed

section \<open>The default registry\<close>





section \<open>A registry instance as third argument\<close>

text \<open>
  C4. With a server that carries the marker and a registry instance as third argument, each
  variant returns a result whose \<open>getRegistry\<close>, on every call, returns a promise fulfilled
  with that very reference; the only object allocated is the middleware array and the only
  call to a collaborator is the registration: no registry is created and no default metrics
  are collected.
\<close>

theorem registry_instance:
  assumes "setup \<in> set variants"
    and "get_prop w server ''isEgoHttpServer'' = Bool True"
    and "instanceof_Registry w arg3"
  shows "fst (setup pc server path arg3 w) =
           Inr \<lparr>getRegistry = asAsync (Fn (AsyncConst arg3)),
                 requestHandler = RequestHandler (asAsync (Fn (AsyncConst arg3)))\<rparr> \<and>
         heap (snd (setup pc server path arg3 w)) = heap w @ [HArr []] \<and>
         trace (snd (setup pc server path arg3 w)) =
           trace w @ [Register server (Str (lit ''get'')) path (Ref (length (heap w)))
                        (RequestHandler (asAsync (Fn (AsyncConst arg3))))] \<and>
         (\<forall>ext w'. call_fn ext (asAsync (Fn (AsyncConst arg3))) w' =
                     (Return (Promise (Fulfilled arg3)), w'))"
proof -
  have c: "\<forall>ext w'. call_fn ext (asAsync (Fn (AsyncConst arg3))) w' =
                     (Return (Promise (Fulfilled arg3)), w')"
    using assms(3) by (simp add: call_asAsync_AsyncConst instanceof_Registry_Ref)
  from assms(1) consider "setup = setupPromClient_part000" | "setup = setupPromClient_index"
    by (auto simp add: variants_def)
  then show ?thesis
  proof cases
    case 1
    then show ?thesis using assms(2,3) c
      by (simp add: part000_flat options_of_Registry Let_def)
  next
    case 2
    then show ?thesis using assms(2,3) c
      by (simp add: index_flat Let_def)
  qed
qed

theorem registry_instance_witness:
  "setupPromClient_part000 \<in> set variants \<and>
   get_prop example_world (Ref 0) ''isEgoHttpServer'' = Bool True \<and>
   instanceof_Registry example_world (Ref 3) \<and>
   fst (setupPromClient_part000 example_promClient (Ref 0) (Str (lit ''/metrics'')) (Ref 3)
          example_world) =
     Inr \<lparr>getRegistry = asAsync (Fn (AsyncConst (Ref 3))),
           requestHandler = RequestHandler (asAsync (Fn (AsyncConst (Ref 3))))\<rparr> \<and>
   trace (snd (setupPromClient_part000 example_promClient (Ref 0) (Str (lit ''/metrics'')) (Ref 3)
          example_world)) =
     [Register (Ref 0) (Str (lit ''get'')) (Str (lit ''/metrics'')) (Ref 6)
        (RequestHandler (asAsync (Fn (AsyncConst (Ref 3)))))]"
proof -
  have v: "setupPromClient_part000 \<in> set variants"
    by (simp add: variants_def)
  have r: "instanceof_Registry example_world (Ref 3)"
    by (simp add: instanceof_Registry_def lookup_def example_world_def)
  have t: "trace example_world = []"
    by (simp add: example_world_def)
  show ?thesis
    using registry_instance [OF v example_server r, of example_promClient "Str (lit ''/metrics'')"]
      v example_server r t
    by (simp add: example_length)
qed

section \<open>A method name or an array in the variant without the shorthand\<close>

text \<open>
  C5. Evaluated where the code departs from the claim: with the method name \<open>post\<close> and with
  the array of two middlewares as third argument, the variant of src/src/index.ts raises the
  type error \<open>optionsOrRegistry is an invalid value\<close> and calls no member of the server,
  because these two branches leave the variable \<open>getRegistry\<close> unassigned. On the same
  inputs the variant of src/unnamed/part_000 does what the claim says: it registers under
  \<open>post\<close> with an empty array, and under \<open>get\<close> with a fresh array holding the two
  middlewares in order.
\<close>

theorem index_rejects_method_and_array:
  "fst (setupPromClient_index example_promClient (Ref 0) (Str (lit ''/metrics'')) (Str (lit ''post''))
          example_world) = Inl (TypeError ''optionsOrRegistry is an invalid value'') \<and>
   trace (snd (setupPromClient_index example_promClient (Ref 0) (Str (lit ''/metrics''))
                 (Str (lit ''post'')) example_world)) = [] \<and>
   fst (setupPromClient_index example_promClient (Ref 0) (Str (lit ''/metrics'')) (Ref 1)
          example_world) = Inl (TypeError ''optionsOrRegistry is an invalid value'') \<and>
   trace (snd (setupPromClient_index example_promClient (Ref 0) (Str (lit ''/metrics''))
                 (Ref 1) example_world)) = [] \<and>
   trace (snd (setupPromClient_part000 example_promClient (Ref 0) (Str (lit ''/metrics''))
                 (Str (lit ''post'')) example_world)) =
     [NewRegistry 7, CollectDefaultMetrics 7,
      Register (Ref 0) (Str (lit ''post'')) (Str (lit ''/metrics'')) (Ref 6)
        (RequestHandler (asAsync (Fn (AsyncConst (Ref 7)))))] \<and>
   lookup (snd (setupPromClient_part000 example_promClient (Ref 0) (Str (lit ''/metrics''))
                  (Str (lit ''post'')) example_world)) 6 = Some (HArr []) \<and>
   trace (snd (setupPromClient_part000 example_promClient (Ref 0) (Str (lit ''/metrics''))
                 (Ref 1) example_world)) =
     [NewRegistry 7, CollectDefaultMetrics 7,
      Register (Ref 0) (Str (lit ''get'')) (Str (lit ''/metrics'')) (Ref 6)
        (RequestHandler (asAsync (Fn (AsyncConst (Ref 7)))))] \<and>
   lookup (snd (setupPromClient_part000 example_promClient (Ref 0) (Str (lit ''/metrics''))
                  (Ref 1) example_world)) 6 = Some (HArr [Fn (Ext 1), Fn (Ext 2)])"
proof -
  have t: "trace example_world = []"
    by (simp add: example_world_def)
  have s: "typeof (Str (lit ''post'')) = ''string'' \<or> Array_isArray example_world (Str (lit ''post''))"
    by simp
  have a: "typeof (Ref 1) = ''string'' \<or> Array_isArray example_world (Ref 1)"
    using example_array(1) by simp
  show ?thesis
    using t index_string_or_array [OF example_server s, of example_promClient "Str (lit ''/metrics'')"]
      index_string_or_array [OF example_server a, of example_promClient "Str (lit ''/metrics'')"]
      example_array
    by (simp add: part000_string [OF example_server] part000_array [OF example_server]
        example_length lookup_push)
qed


section \<open>A well-typed configuration rejected\<close>

text \<open>
  C6. Evaluated where the code departs from the claim: the method name \<open>get\<close> resolves to
  the configuration \<^verbatim>\<open>{ httpMethod: "get" }\<close>, none of whose fields is ill typed, and the
  variant of src/unnamed/part_000 returns a result; the variant of src/src/index.ts raises
  its type error about the provider all the same.
\<close>

theorem index_rejects_well_typed_configuration:
  "options_of example_world (Str (lit ''get'')) = [(''httpMethod'', Str (lit ''get''))] \<and>
   \<not> ill_typed example_world (options_of example_world (Str (lit ''get''))) \<and>
   fst (setupPromClient_part000 example_promClient (Ref 0) (Str (lit ''/metrics''))
          (Str (lit ''get'')) example_world) =
     Inr \<lparr>getRegistry = asAsync (Fn (AsyncConst (Ref 7))),
           requestHandler = RequestHandler (asAsync (Fn (AsyncConst (Ref 7))))\<rparr> \<and>
   fst (setupPromClient_index example_promClient (Ref 0) (Str (lit ''/metrics''))
          (Str (lit ''get'')) example_world) =
     Inl (TypeError ''optionsOrRegistry is an invalid value'')"
proof -
  have o: "options_of example_world (Str (lit ''get'')) = [(''httpMethod'', Str (lit ''get''))]"
    by (simp add: options_of_def Str_tests)
  have s: "typeof (Str (lit ''get'')) = ''string'' \<or> Array_isArray example_world (Str (lit ''get''))"
    by simp
  show ?thesis
    using index_string_or_array [OF example_server s, of example_promClient "Str (lit ''/metrics'')"]
    by (simp add: o ill_typed_def part000_string [OF example_server] example_length)
qed

section \<open>What a type error leaves behind\<close>




section \<open>The wrapped provider\<close>

text \<open>
  C8. The function \<open>asAsync\<close> returns for a provider always returns a promise, never throws,
  and has the provider's own effects on the world. When the provider returns a registry
  directly the promise is fulfilled with it, and when the provider returns a promise the
  result is settled in the same way; so a synchronous and an asynchronous provider of the
  same registry give the same wrapped call. The \<open>getRegistry\<close> that \<open>setupPromClient\<close>
  returns is this wrapping of the provider it accepted: of a bare function in the variant
  with the shorthand, and of the \<open>getRegistry\<close> field of a well-typed options object in
  both variants.
\<close>

theorem asAsync_uniform:
  "(\<exists>p. fst (call_fn ext (asAsync (Fn f)) v) = Return (Promise p)) \<and>
   snd (call_fn ext (asAsync (Fn f)) v) = snd (call_fn ext f v) \<and>
   (\<forall>a v'. call_fn ext f v = (Return (Ref a), v') \<longrightarrow>
      call_fn ext (asAsync (Fn f)) v = (Return (Promise (Fulfilled (Ref a))), v')) \<and>
   (\<forall>s v'. call_fn ext f v = (Return (Promise s), v') \<longrightarrow>
      call_fn ext (asAsync (Fn f)) v = (Return (Promise s), v')) \<and>
   (\<forall>f' a v'. call_fn ext f v = (Return (Ref a), v') \<and>
      call_fn ext f' v = (Return (Promise (Fulfilled (Ref a))), v') \<longrightarrow>
      call_fn ext (asAsync (Fn f)) v = call_fn ext (asAsync (Fn f')) v) \<and>
   (get_prop w server ''isEgoHttpServer'' = Bool True \<longrightarrow>
      fst (setupPromClient_part000 pc server path (Fn f) w) =
        Inr \<lparr>getRegistry = asAsync (Fn f), requestHandler = RequestHandler (asAsync (Fn f))\<rparr>) \<and>
   (\<forall>setup \<in> set variants.
      get_prop w server ''isEgoHttpServer'' = Bool True \<and> plain_object w arg3 \<and>
      get_prop w arg3 ''getRegistry'' = Fn f \<and> well_typed_rest w arg3 \<longrightarrow>
      fst (setup pc server path arg3 w) =
        Inr \<lparr>getRegistry = asAsync (Fn f), requestHandler = RequestHandler (asAsync (Fn f))\<rparr>)"
proof -
  have p: "\<exists>p. fst (call_fn ext (asAsync (Fn f)) v) = Return (Promise p)"
    by (cases "fst (call_fn ext f v)") (simp_all add: call_asAsync)
  have s: "snd (call_fn ext (asAsync (Fn f)) v) = snd (call_fn ext f v)"
    by (simp add: call_asAsync)
  have l: "\<forall>setup \<in> set variants.
      get_prop w server ''isEgoHttpServer'' = Bool True \<and> plain_object w arg3 \<and>
      get_prop w arg3 ''getRegistry'' = Fn f \<and> well_typed_rest w arg3 \<longrightarrow>
      fst (setup pc server path arg3 w) =
        Inr \<lparr>getRegistry = asAsync (Fn f), requestHandler = RequestHandler (asAsync (Fn f))\<rparr>"
    by (simp add: variants_def options_provider_part000 options_provider_index)
  show ?thesis
    using p s l by (simp add: call_asAsync part000_function)
qed


text \<open>Provider 0 returns the registry at 3 directly, provider 7 a promise of it.\<close>

theorem asAsync_uniform_witness:
  "call_fn example_extern (Ext 0) example_world = (Return (Ref 3), example_world) \<and>
   call_fn example_extern (Ext 7) example_world =
     (Return (Promise (Fulfilled (Ref 3))), example_world) \<and>
   call_fn example_extern (asAsync (Fn (Ext 0))) example_world =
     (Return (Promise (Fulfilled (Ref 3))), example_world) \<and>
   call_fn example_extern (asAsync (Fn (Ext 0))) example_world =
     call_fn example_extern (asAsync (Fn (Ext 7))) example_world \<and>
   fst (setupPromClient_part000 example_promClient (Ref 0) (Str (lit ''/metrics'')) (Fn (Ext 0))
          example_world) =
     Inr \<lparr>getRegistry = asAsync (Fn (Ext 0)),
           requestHandler = RequestHandler (asAsync (Fn (Ext 0)))\<rparr> \<and>
   fst (setupPromClient_index example_promClient (Ref 0) (Str (lit ''/metrics'')) (Ref 5)
          example_world) =
     Inr \<lparr>getRegistry = asAsync (Fn (Ext 0)),
           requestHandler = RequestHandler (asAsync (Fn (Ext 0)))\<rparr>"
proof -
  have t: "well_typed_rest example_world (Ref 5)"
    using example_array(1) by (simp add: well_typed_rest_def example_options)
  have v: "setupPromClient_index \<in> set variants"
    by (simp add: variants_def)
  show ?thesis
    using asAsync_uniform [of example_extern "Ext 0" example_world example_world "Ref 0"
        example_promClient "Str (lit ''/metrics'')" "Ref 5"]
      example_calls example_server example_options t v
    by auto
qed

section \<open>Where the two variants agree and where they differ\<close>






section \<open>The caller's objects after a run\<close>

text \<open>
  C10. A run of either variant writes to no object that existed before: the old heap is the
  initial part of the new one. The array passed to the server is the one allocated by the
  run, at the first address beyond the old heap; it holds the elements of the caller's
  array, whether given directly or as the \<open>use\<close> field of an options object, in order; and
  a later write to any object of the caller leaves it as it is.
\<close>

theorem caller_objects_untouched:
  assumes "setup \<in> set variants"
  shows "take (length (heap w)) (heap (snd (setup pc server path arg3 w))) = heap w \<and>
         registered_arrays (trace (snd (setup pc server path arg3 w))) =
           registered_arrays (trace w) @
           (case fst (setup pc server path arg3 w) of
              Inl e \<Rightarrow> [] | Inr res \<Rightarrow> [Ref (length (heap w))]) \<and>
         (get_prop w server ''isEgoHttpServer'' = Bool True \<and> Array_isArray w arg3 \<longrightarrow>
            lookup (snd (setup pc server path arg3 w)) (length (heap w)) =
              Some (HArr (elements w arg3))) \<and>
         (plain_object w arg3 \<and> Array_isArray w (get_prop w arg3 ''use'') \<and>
          (\<exists>res. fst (setup pc server path arg3 w) = Inr res) \<longrightarrow>
            lookup (snd (setup pc server path arg3 w)) (length (heap w)) =
              Some (HArr (elements w (get_prop w arg3 ''use'')))) \<and>
         (\<forall>b obj. b < length (heap w) \<longrightarrow>
            lookup (store b obj (snd (setup pc server path arg3 w))) (length (heap w)) =
              lookup (snd (setup pc server path arg3 w)) (length (heap w)))"
  using assms
proof (cases rule: variants_cases)
  case 1
  show ?thesis
    unfolding 1
    using part000_frame part000_registered part000_copy_array part000_copy_use
    by (auto simp add: lookup_store_other)
next
  case 2
  show ?thesis
    unfolding 2
    using index_frame index_registered index_copy_array index_copy_use
    by (auto simp add: lookup_store_other)
qed

theorem caller_objects_untouched_witness:
  "setupPromClient_part000 \<in> set variants \<and>
   6 = length (heap example_world) \<and>
   take 6 (heap (snd (setupPromClient_part000 example_promClient (Ref 0) (Str (lit ''/metrics''))
                        (Ref 1) example_world))) = heap example_world \<and>
   lookup (snd (setupPromClient_part000 example_promClient (Ref 0) (Str (lit ''/metrics''))
                  (Ref 1) example_world)) 6 = Some (HArr [Fn (Ext 1), Fn (Ext 2)]) \<and>
   lookup (store 1 (HArr [])
             (snd (setupPromClient_part000 example_promClient (Ref 0) (Str (lit ''/metrics''))
                     (Ref 1) example_world))) 6 = Some (HArr [Fn (Ext 1), Fn (Ext 2)])"
proof -
  have v: "setupPromClient_part000 \<in> set variants"
    by (simp add: variants_def)
  show ?thesis
    using caller_objects_untouched [OF v, of example_world example_promClient "Ref 0"
        "Str (lit ''/metrics'')" "Ref 1"] v example_server example_array
    by (simp add: example_length)
qed



end
